theory Spec2Isabelle
  imports Main "HOL-Library.Word"
begin

section \<open>Data model\<close>

text \<open>
  \<^verbatim>\<open>struct option\<close> of getopt.h, the element type of the table \<^verbatim>\<open>lopts[]\<close>:
  \<^verbatim>\<open>{ const char *name; int has_arg; int *flag; int val; }\<close>.
  A null \<^verbatim>\<open>name\<close> is \<open>None\<close>; an entry with a null name is the sentinel that ends a
  table. \<^verbatim>\<open>flag\<close> is a pointer this layer only copies (an address, or \<open>None\<close> for
  null). \<^verbatim>\<open>val\<close> is only assigned and compared, never computed with, so it is an
  \<open>int\<close>.
\<close>

record struct_option =
  name :: "string option"
  has_arg :: int
  flag :: "nat option"
  val :: int

text \<open>
  Reading or writing \<^verbatim>\<open>lopts[k]\<close> outside the array, passing a null pointer to
  \<^verbatim>\<open>strcmp\<close> and writing through a pointer to no object are undefined in C; the
  model stops with an error there.
\<close>

datatype error = Out_of_bounds | Null_pointer | Invalid_pointer

definition in_table :: "struct_option list \<Rightarrow> int \<Rightarrow> bool" where
  "in_table lopts k \<longleftrightarrow> 0 \<le> k \<and> nat k < length lopts"

text \<open>
  \<^verbatim>\<open>shortopts[i]\<close> for a C string whose characters (without the terminator) are \<open>s\<close>:
  the character at \<open>i\<close>, and the terminating NUL at the end. The loops below stop at
  the first NUL and never read further.
\<close>

definition shortopts_at :: "string \<Rightarrow> int \<Rightarrow> char" where
  "shortopts_at s i = (if 0 \<le> i \<and> nat i < length s then s ! nat i else CHR 0x00)"

section \<open>assign_short_opts\<close>

text \<open>
  The state of the loop \<^verbatim>\<open>for (i=j=0; shortopts && shortopts[i]; i++,j++)\<close>: the table
  and the two cursors \<open>i\<close> (read) and \<open>j\<close> (write), both C \<^verbatim>\<open>int\<close>.
\<close>

type_synonym remap_state = "struct_option list \<times> int \<times> int"

text \<open>
  The conversion of the plain \<^verbatim>\<open>char\<close> \<^verbatim>\<open>shortopts[i]\<close> to the \<^verbatim>\<open>int\<close> stored in
  \<^verbatim>\<open>val\<close>. \<^verbatim>\<open>char\<close> is signed here, as in the usual build: a byte from 0x80 on is a
  negative value (0xE9 is \<open>-23\<close>). Where \<^verbatim>\<open>char\<close> is unsigned such a byte keeps its
  code instead; for the 7-bit characters the value is the code either way.
\<close>

definition char_to_int :: "char \<Rightarrow> int" where
  "char_to_int c = (if (of_char c :: nat) < 128 then of_char c else of_char c - 256)"

text \<open>
  One pass through the loop body followed by the increment \<^verbatim>\<open>i++,j++\<close>:
  \<^verbatim>\<open>lopts[j] = lopts[i]; if (shortopts[i] == '-') j--; else if (shortopts[i] != '.')
  lopts[j].val = shortopts[i];\<close>
  A pass with a cursor outside the table is an error, so the cursors stay within the
  table's length and the C \<^verbatim>\<open>int\<close> cannot overflow.
\<close>

definition assign_body :: "string \<Rightarrow> remap_state \<Rightarrow> error + remap_state" where
  "assign_body s st =
     (case st of (lopts, i, j) \<Rightarrow>
        if \<not> (in_table lopts i \<and> in_table lopts j) then Inl Out_of_bounds
        else
          let lopts1 = lopts[nat j := lopts ! nat i];
              (lopts2, j2) =
                (if shortopts_at s i = CHR ''-'' then (lopts1, j - 1)
                 else if shortopts_at s i \<noteq> CHR ''.'' then
                   (lopts1[nat j := (lopts1 ! nat j)\<lparr>val := char_to_int (shortopts_at s i)\<rparr>], j)
                 else (lopts1, j))
          in Inr (lopts2, i + 1, j2 + 1))"

lemma assign_body_cursor:
  "assign_body s st = Inr st' \<Longrightarrow> fst (snd st') = fst (snd st) + 1"
  by (auto simp: assign_body_def Let_def split: prod.splits if_splits)

function assign_loop :: "string option \<Rightarrow> remap_state \<Rightarrow> error + remap_state" where
  "assign_loop shortopts st =
     (case shortopts of
        None \<Rightarrow> Inr st
      | Some s \<Rightarrow>
          if shortopts_at s (fst (snd st)) = CHR 0x00 then Inr st
          else (case assign_body s st of
                  Inl e \<Rightarrow> Inl e
                | Inr st' \<Rightarrow> assign_loop shortopts st'))"
  by pat_completeness auto
termination
proof (relation "measure (\<lambda>(shortopts, st).
          case shortopts of None \<Rightarrow> 0 | Some s \<Rightarrow> nat (int (length s) - fst (snd st)))")
  show "wf (measure (\<lambda>(shortopts, st).
          case shortopts of None \<Rightarrow> 0 | Some s \<Rightarrow> nat (int (length s) - fst (snd st))))"
    by simp
next
  fix shortopts :: "string option" and st st' :: remap_state and s :: string
  assume so: "shortopts = Some s"
    and nz: "shortopts_at s (fst (snd st)) \<noteq> CHR 0x00"
    and body: "assign_body s st = Inr st'"
  from nz have "0 \<le> fst (snd st) \<and> fst (snd st) < int (length s)"
    by (auto simp: shortopts_at_def split: if_splits)
  moreover from body have "fst (snd st') = fst (snd st) + 1"
    by (rule assign_body_cursor)
  ultimately show "((shortopts, st'), (shortopts, st)) \<in> measure (\<lambda>(shortopts, st).
          case shortopts of None \<Rightarrow> 0 | Some s \<Rightarrow> nat (int (length s) - fst (snd st)))"
    using so by simp
qed

declare assign_loop.simps [simp del]

text \<open>The whole routine: the loop from \<open>i = j = 0\<close>, then \<^verbatim>\<open>lopts[j] = lopts[i]\<close>.\<close>

definition assign_short_opts :: "struct_option list \<Rightarrow> string option \<Rightarrow> error + struct_option list" where
  "assign_short_opts lopts shortopts =
     (case assign_loop shortopts (lopts, 0, 0) of
        Inl e \<Rightarrow> Inl e
      | Inr (lopts', i, j) \<Rightarrow>
          if in_table lopts' i \<and> in_table lopts' j
          then Inr (lopts'[nat j := lopts' ! nat i])
          else Inl Out_of_bounds)"

section \<open>parse_sam_global_opt\<close>

text \<open>
  \<^verbatim>\<open>sam_global_args\<close> of sam_opts.h (not among the sources), by the fields the code
  uses: \<^verbatim>\<open>in\<close> and \<^verbatim>\<open>out\<close>, two \<^verbatim>\<open>htsFormat\<close>, and the \<^verbatim>\<open>int verbosity\<close>. Of an
  \<^verbatim>\<open>htsFormat\<close> the code touches \<^verbatim>\<open>opts\<close> only, the head of a linked list of format
  options (null is the empty list); \<open>fmt\<close> stands for its remaining fields and \<open>'o\<close>
  for a format option, both types of the external library. The field \<^verbatim>\<open>in\<close> is
  \<open>in_fmt\<close> here. \<^verbatim>\<open>verbosity\<close> is a 32-bit word; \<^verbatim>\<open>verbosity++\<close> wraps around in two's
  complement (\<open>sint\<close> reads the signed value).
\<close>

record ('f, 'o) htsFormat =
  fmt :: 'f
  opts :: "'o list"

record ('f, 'o) sam_global_args =
  in_fmt :: "('f, 'o) htsFormat"
  out :: "('f, 'o) htsFormat"
  verbosity :: "32 word"

text \<open>
  The two functions of the external library that \<^verbatim>\<open>parse_sam_global_opt\<close> calls. Each
  gets a pointer to the part of the settings it may change and the argument string
  (\<^verbatim>\<open>optarg\<close>, null for an option without argument), and returns its \<^verbatim>\<open>int\<close> result
  with the new value of that part.
\<close>

record ('f, 'o) htslib =
  hts_parse_opt_format :: "('f, 'o) htsFormat \<Rightarrow> string option \<Rightarrow> int \<times> ('f, 'o) htsFormat"
  hts_opt_add :: "'o list \<Rightarrow> string option \<Rightarrow> int \<times> 'o list"

text \<open>
  What is written to \<^verbatim>\<open>stderr\<close>: the one message of this file,
  \<^verbatim>\<open>"Unexpected global option: %s\n"\<close>, with the pointer passed for \<^verbatim>\<open>%s\<close>.
\<close>

datatype diagnostic = Unexpected_global_option "string option"

text \<open>
  The loop \<^verbatim>\<open>while (lopt->name) { ... }\<close>. The pointer \<^verbatim>\<open>lopt\<close> is the table with the
  index \<open>k\<close> of the entry it points to. The loop ends by its condition or by a
  \<^verbatim>\<open>break\<close> with the index \<open>k\<close>, the settings and \<^verbatim>\<open>r\<close>. When \<^verbatim>\<open>c\<close> equals the
  entry's \<^verbatim>\<open>val\<close> and no \<^verbatim>\<open>strcmp\<close> succeeds, the body ends without \<^verbatim>\<open>lopt++\<close> and
  without \<^verbatim>\<open>break\<close>: the next pass starts from the same state. A loop that does
  not end has the value \<open>None\<close>.
\<close>

type_synonym ('f, 'o) lookup_state = "nat \<times> ('f, 'o) sam_global_args \<times> int"

partial_function (option) lookup_loop ::
  "('f, 'o) htslib \<Rightarrow> int \<Rightarrow> string option \<Rightarrow> struct_option list \<Rightarrow>
   nat \<Rightarrow> ('f, 'o) sam_global_args \<Rightarrow> int \<Rightarrow> (error + ('f, 'o) lookup_state) option"
where
  "lookup_loop H c optarg lopt k ga r =
     (if \<not> k < length lopt then Some (Inl Out_of_bounds)
      else case name (lopt ! k) of
        None \<Rightarrow> Some (Inr (k, ga, r))
      | Some nm \<Rightarrow>
          if c \<noteq> val (lopt ! k) then lookup_loop H c optarg lopt (k + 1) ga r
          else if nm = ''input-fmt'' then
            (case hts_parse_opt_format H (in_fmt ga) optarg of
               (r', f) \<Rightarrow> Some (Inr (k, ga\<lparr>in_fmt := f\<rparr>, r')))
          else if nm = ''input-fmt-option'' then
            (case hts_opt_add H (opts (in_fmt ga)) optarg of
               (r', os) \<Rightarrow> Some (Inr (k, ga\<lparr>in_fmt := (in_fmt ga)\<lparr>opts := os\<rparr>\<rparr>, r')))
          else if nm = ''output-fmt'' then
            (case hts_parse_opt_format H (out ga) optarg of
               (r', f) \<Rightarrow> Some (Inr (k, ga\<lparr>out := f\<rparr>, r')))
          else if nm = ''output-fmt-option'' then
            (case hts_opt_add H (opts (out ga)) optarg of
               (r', os) \<Rightarrow> Some (Inr (k, ga\<lparr>out := (out ga)\<lparr>opts := os\<rparr>\<rparr>, r')))
          else if nm = ''verbose'' then
            Some (Inr (k, ga\<lparr>verbosity := verbosity ga + 1\<rparr>, r))
          else lookup_loop H c optarg lopt k ga r)"

text \<open>
  The whole routine: \<^verbatim>\<open>r = 0\<close>, the loop from the first entry, then
  \<^verbatim>\<open>if (!lopt->name) { fprintf(stderr, "Unexpected global option: %s\n", lopt->name);
  return -1; } return r;\<close>. The result is the returned \<^verbatim>\<open>int\<close>, the settings and what
  was written to \<^verbatim>\<open>stderr\<close>.
\<close>

type_synonym ('f, 'o) dispatch_result = "int \<times> ('f, 'o) sam_global_args \<times> diagnostic list"

definition parse_sam_global_opt ::
  "('f, 'o) htslib \<Rightarrow> int \<Rightarrow> string option \<Rightarrow> struct_option list \<Rightarrow>
   ('f, 'o) sam_global_args \<Rightarrow> (error + ('f, 'o) dispatch_result) option"
where
  "parse_sam_global_opt H c optarg lopt ga =
     (case lookup_loop H c optarg lopt 0 ga 0 of
        None \<Rightarrow> None
      | Some (Inl e) \<Rightarrow> Some (Inl e)
      | Some (Inr (k, ga', r)) \<Rightarrow>
          if name (lopt ! k) = None
          then Some (Inr (- 1, ga', [Unexpected_global_option (name (lopt ! k))]))
          else Some (Inr (r, ga', [])))"

section \<open>sam_global_opt_help\<close>

text \<open>
  The chain of \<^verbatim>\<open>strcmp\<close> tests on \<^verbatim>\<open>lopts[i].name\<close> and the text each branch prints;
  a name outside the five prints nothing.
\<close>

definition option_help :: "string \<Rightarrow> string" where
  "option_help nm =
     (if nm = ''input-fmt'' then
        ''input-fmt FORMAT[,OPT[=VAL]]...\<newline>'' @
        ''               Specify input format (SAM, BAM, CRAM)\<newline>''
      else if nm = ''input-fmt-option'' then
        ''input-fmt-option OPT[=VAL]\<newline>'' @
        ''               Specify a single input file format option in the form\<newline>'' @
        ''               of OPTION or OPTION=VALUE\<newline>''
      else if nm = ''output-fmt'' then
        ''output-fmt FORMAT[,OPT[=VAL]]...\<newline>'' @
        ''               Specify output format (SAM, BAM, CRAM)\<newline>''
      else if nm = ''output-fmt-option'' then
        ''output-fmt-option OPT[=VAL]\<newline>'' @
        ''               Specify a single output file format option in the form\<newline>'' @
        ''               of OPTION or OPTION=VALUE\<newline>''
      else if nm = ''verbose'' then
        ''verbose\<newline>'' @
        ''               Increment level of verbosity\<newline>''
      else [])"

text \<open>
  The loop \<^verbatim>\<open>for (i = 0; shortopts && shortopts[i] && i < nopts; i++)\<close> over the table
  \<open>lopts\<close> (in the source the local copy of \<^verbatim>\<open>SAM_GLOBAL_LOPTS_INIT\<close>, with \<^verbatim>\<open>nopts\<close>
  the number of its elements, the sentinel included). \<open>fp\<close> is what has been written
  to the stream so far.
\<close>

function help_loop :: "struct_option list \<Rightarrow> string option \<Rightarrow> int \<Rightarrow> string \<Rightarrow> error + string" where
  "help_loop lopts shortopts i fp =
     (case shortopts of
        None \<Rightarrow> Inr fp
      | Some s \<Rightarrow>
          if shortopts_at s i \<noteq> CHR 0x00 \<and> i < int (length lopts) then
            if shortopts_at s i = CHR ''-'' then help_loop lopts shortopts (i + 1) fp
            else
              let fp1 = (if shortopts_at s i = CHR ''.'' then fp @ ''      --''
                         else fp @ ''  -'' @ [shortopts_at s i] @ '', --'')
              in (case name (lopts ! nat i) of
                    None \<Rightarrow> Inl Null_pointer
                  | Some nm \<Rightarrow> help_loop lopts shortopts (i + 1) (fp1 @ option_help nm))
          else Inr fp)"
  by pat_completeness auto
termination
  by (relation "measure (\<lambda>(lopts, shortopts, i, fp). nat (int (length lopts) - i))") auto

declare help_loop.simps [simp del]

definition sam_global_opt_help :: "struct_option list \<Rightarrow> string \<Rightarrow> string option \<Rightarrow> error + string" where
  "sam_global_opt_help lopts fp shortopts = help_loop lopts shortopts 0 fp"

section \<open>sam_global_args_init\<close>

text \<open>
  The settings live in a store, and \<^verbatim>\<open>sam_global_args *ga\<close> is an address in it or
  null (\<open>None\<close>). \<^verbatim>\<open>memset(ga, 0, sizeof(*ga))\<close> makes every byte of the structure zero:
  every integer field 0 and every pointer null. Writing through a pointer that is
  neither null nor the address of a settings structure is undefined.
\<close>

type_synonym ('f, 'o) store = "nat \<rightharpoonup> ('f, 'o) sam_global_args"

definition zeroed :: "('f::zero, 'o) sam_global_args" where
  "zeroed = \<lparr>in_fmt = \<lparr>fmt = 0, opts = []\<rparr>, out = \<lparr>fmt = 0, opts = []\<rparr>, verbosity = 0\<rparr>"

definition sam_global_args_init ::
  "nat option \<Rightarrow> ('f::zero, 'o) store \<Rightarrow> error + ('f, 'o) store" where
  "sam_global_args_init ga h =
     (case ga of
        None \<Rightarrow> Inr h
      | Some a \<Rightarrow> (case h a of None \<Rightarrow> Inl Invalid_pointer | Some _ \<Rightarrow> Inr (h(a \<mapsto> zeroed))))"

section \<open>Notions the properties are stated with\<close>

text \<open>
  Modelled from the spec: the macro \<^verbatim>\<open>SAM_GLOBAL_LOPTS_INIT\<close> of sam_opts.h, the
  canonical table, is not among the sources. The spec gives it as the closed set of
  five long names in the order of its CLI surface (the four format options take an
  argument, \<^verbatim>\<open>verbose\<close> takes none), each with its short-form value unset, followed by
  the sentinel. It is used for concrete instances only; every operation below takes
  its table as an argument.
\<close>

definition SAM_GLOBAL_LOPTS_INIT :: "struct_option list" where
  "SAM_GLOBAL_LOPTS_INIT =
     [\<lparr>name = Some ''input-fmt'', has_arg = 1, flag = None, val = 0\<rparr>,
      \<lparr>name = Some ''input-fmt-option'', has_arg = 1, flag = None, val = 0\<rparr>,
      \<lparr>name = Some ''output-fmt'', has_arg = 1, flag = None, val = 0\<rparr>,
      \<lparr>name = Some ''output-fmt-option'', has_arg = 1, flag = None, val = 0\<rparr>,
      \<lparr>name = Some ''verbose'', has_arg = 0, flag = None, val = 0\<rparr>,
      \<lparr>name = None, has_arg = 0, flag = None, val = 0\<rparr>]"

text \<open>
  The active table is what a scan of the table sees (\<^verbatim>\<open>while (lopt->name)\<close> in
  \<^verbatim>\<open>parse_sam_global_opt\<close>): the entries before the first one whose name is null.
\<close>

definition active_table :: "struct_option list \<Rightarrow> struct_option list" where
  "active_table t = takeWhile (\<lambda>e. name e \<noteq> None) t"

text \<open>
  The spec's compaction, written from its words: pair descriptor \<open>k\<close> with control
  character \<open>k\<close>, drop the pairs marked \<^verbatim>\<open>-\<close>, and give each remaining descriptor its
  short-form value: untouched for \<^verbatim>\<open>.\<close>, the character (its code) otherwise.
\<close>

definition remap_entry :: "struct_option \<Rightarrow> char \<Rightarrow> struct_option" where
  "remap_entry e c = (if c = CHR ''.'' then e else e\<lparr>val := of_char c\<rparr>)"

definition compacted :: "struct_option list \<Rightarrow> string \<Rightarrow> struct_option list" where
  "compacted es s =
     map (\<lambda>(e, c). remap_entry e c) (filter (\<lambda>(e, c). c \<noteq> CHR ''-'') (zip es s))"

text \<open>
  The states the loop of \<^verbatim>\<open>assign_short_opts\<close> passes through at its head, from a
  first state \<open>st0\<close>: \<open>st0\<close> itself, and the state after one more pass whenever the loop
  condition holds.
\<close>

inductive loop_head :: "string option \<Rightarrow> remap_state \<Rightarrow> remap_state \<Rightarrow> bool"
  for shortopts :: "string option" and st0 :: remap_state
where
  start: "loop_head shortopts st0 st0"
| pass: "loop_head shortopts st0 st \<Longrightarrow> shortopts = Some s \<Longrightarrow>
         shortopts_at s (fst (snd st)) \<noteq> CHR 0x00 \<Longrightarrow> assign_body s st = Inr st' \<Longrightarrow>
         loop_head shortopts st0 st'"

text \<open>The closed set of five long names \<^verbatim>\<open>parse_sam_global_opt\<close> has a branch for.\<close>

definition known_option :: "string \<Rightarrow> bool" where
  "known_option nm \<longleftrightarrow>
     nm = ''input-fmt'' \<or> nm = ''input-fmt-option'' \<or> nm = ''output-fmt'' \<or>
     nm = ''output-fmt-option'' \<or> nm = ''verbose''"

text \<open>
  Modelled from the spec: \<^verbatim>\<open>hts_opt_add\<close> is a function of the external format
  library and not among the sources. The spec: "parse the argument as a single
  \<^verbatim>\<open>KEY\<close> or \<^verbatim>\<open>KEY=VALUE\<close> token and append to the relevant format's option list". An
  option is the key with its value, if it has one; a null argument holds no token and
  is refused with the list unchanged.
\<close>

definition hts_opt_add_model ::
  "(string \<times> string option) list \<Rightarrow> string option \<Rightarrow> int \<times> (string \<times> string option) list" where
  "hts_opt_add_model os arg =
     (case arg of
        None \<Rightarrow> (- 1, os)
      | Some a \<Rightarrow>
          (0, os @ [(takeWhile (\<lambda>c. c \<noteq> CHR ''='') a,
                     case dropWhile (\<lambda>c. c \<noteq> CHR ''='') a of
                       [] \<Rightarrow> None
                     | eq # v \<Rightarrow> Some v)]))"

text \<open>
  An instance of the external library for concrete examples: \<^verbatim>\<open>hts_opt_add\<close> as above,
  and a \<^verbatim>\<open>hts_parse_opt_format\<close> that refuses every argument and changes nothing (the
  spec says of it only that it parses a format specification).
\<close>

definition htslib_model :: "(int, string \<times> string option) htslib" where
  "htslib_model =
     \<lparr>hts_parse_opt_format = (\<lambda>f arg. (- 1, f)), hts_opt_add = hts_opt_add_model\<rparr>"

text \<open>
  The canonical table after \<^verbatim>\<open>assign_short_opts\<close> with \<^verbatim>\<open>"IiOov"\<close> (lemma
  \<open>example_table_remapped\<close> below): every option has a letter of its own.
\<close>

definition example_table :: "struct_option list" where
  "example_table =
     [\<lparr>name = Some ''input-fmt'', has_arg = 1, flag = None, val = 73\<rparr>,
      \<lparr>name = Some ''input-fmt-option'', has_arg = 1, flag = None, val = 105\<rparr>,
      \<lparr>name = Some ''output-fmt'', has_arg = 1, flag = None, val = 79\<rparr>,
      \<lparr>name = Some ''output-fmt-option'', has_arg = 1, flag = None, val = 111\<rparr>,
      \<lparr>name = Some ''verbose'', has_arg = 0, flag = None, val = 118\<rparr>,
      \<lparr>name = None, has_arg = 0, flag = None, val = 0\<rparr>]"

section \<open>Properties of assign_short_opts\<close>

lemma shortopts_at_nat:
  "i < length s \<Longrightarrow> shortopts_at s (int i) = s ! i"
  by (simp add: shortopts_at_def)

lemma shortopts_at_end:
  "shortopts_at s (int (length s)) = CHR 0x00"
  by (simp add: shortopts_at_def)

lemma char_to_int_signed:
  "char_to_int (CHR 0xE9) = - 23"
  by (simp add: char_to_int_def)

lemma char_to_int_7bit:
  "(of_char c :: nat) < 128 \<Longrightarrow> char_to_int c = of_char c"
  by (simp add: char_to_int_def)

lemma assign_body_nat:
  assumes "i < length lopts" and "j \<le> i" and "i < length s"
    and "(of_char (s ! i) :: nat) < 128"
  shows "assign_body s (lopts, int i, int j) =
           Inr (if s ! i = CHR ''-'' then (lopts[j := lopts ! i], int (Suc i), int j)
                else (lopts[j := remap_entry (lopts ! i) (s ! i)], int (Suc i), int (Suc j)))"
  using assms
  by (simp add: assign_body_def in_table_def shortopts_at_nat remap_entry_def Let_def
      char_to_int_7bit)

lemma compacted_Cons:
  "compacted (e # es) (c # cs) =
     (if c = CHR ''-'' then compacted es cs else remap_entry e c # compacted es cs)"
  by (simp add: compacted_def)

lemma compacted_drop:
  assumes "i < length es" and "i < length s"
  shows "compacted (drop i es) (drop i s) =
     (if s ! i = CHR ''-'' then compacted (drop (Suc i) es) (drop (Suc i) s)
      else remap_entry (es ! i) (s ! i) # compacted (drop (Suc i) es) (drop (Suc i) s))"
proof -
  have "drop i es = es ! i # drop (Suc i) es" and "drop i s = s ! i # drop (Suc i) s"
    using assms by (simp_all add: Cons_nth_drop_Suc)
  then show ?thesis by (simp add: compacted_Cons)
qed

lemma assign_loop_compacts:
  assumes nul: "CHR 0x00 \<notin> set s"
    and ascii: "\<forall>c\<in>set s. (of_char c :: nat) < 128"
    and len: "length s < length orig"
  shows "i \<le> length s \<Longrightarrow> j \<le> i \<Longrightarrow> length lopts = length orig \<Longrightarrow>
         (\<forall>k. i \<le> k \<longrightarrow> k < length orig \<longrightarrow> lopts ! k = orig ! k) \<Longrightarrow>
         \<exists>lopts'. assign_loop (Some s) (lopts, int i, int j) =
                    Inr (lopts', int (length s),
                         int (j + length (compacted (drop i orig) (drop i s)))) \<and>
                  length lopts' = length orig \<and>
                  take (j + length (compacted (drop i orig) (drop i s))) lopts' =
                    take j lopts @ compacted (drop i orig) (drop i s) \<and>
                  (\<forall>k. length s \<le> k \<longrightarrow> k < length orig \<longrightarrow> lopts' ! k = orig ! k)"
proof (induction "length s - i" arbitrary: i j lopts)
  case 0
  then have i: "i = length s" by simp
  have "assign_loop (Some s) (lopts, int i, int j) = Inr (lopts, int i, int j)"
    by (simp add: i shortopts_at_end assign_loop.simps)
  with 0 i show ?case by (simp add: compacted_def)
next
  case (Suc n)
  then have ilt: "i < length s" by simp
  with len Suc.prems have ilo: "i < length lopts" and jlo: "j < length lopts" by simp_all
  have c0: "s ! i \<noteq> CHR 0x00" using nul ilt by (metis nth_mem)
  have c7: "(of_char (s ! i) :: nat) < 128" using ascii ilt by simp
  have here: "lopts ! i = orig ! i" using Suc.prems ilt len by simp
  let ?st = "if s ! i = CHR ''-'' then (lopts[j := lopts ! i], int (Suc i), int j)
             else (lopts[j := remap_entry (lopts ! i) (s ! i)], int (Suc i), int (Suc j))"
  have unfold: "assign_loop (Some s) (lopts, int i, int j) = assign_loop (Some s) ?st"
    using c0 ilt assign_body_nat [OF ilo \<open>j \<le> i\<close> ilt c7]
    by (subst assign_loop.simps) (simp add: shortopts_at_nat)
  have n: "n = length s - Suc i" using Suc.hyps(2) by simp
  show ?case
  proof (cases "s ! i = CHR ''-''")
    case True
    let ?l = "lopts[j := lopts ! i]"
    have later: "\<forall>k. Suc i \<le> k \<longrightarrow> k < length orig \<longrightarrow> ?l ! k = orig ! k"
      using Suc.prems by simp
    from Suc.hyps(1) [OF n, of j ?l] ilt Suc.prems later
    obtain lopts' where
      r: "assign_loop (Some s) (?l, int (Suc i), int j) =
            Inr (lopts', int (length s),
                 int (j + length (compacted (drop (Suc i) orig) (drop (Suc i) s))))"
      and l: "length lopts' = length orig"
      and t: "take (j + length (compacted (drop (Suc i) orig) (drop (Suc i) s))) lopts' =
                take j ?l @ compacted (drop (Suc i) orig) (drop (Suc i) s)"
      and k: "\<forall>k. length s \<le> k \<longrightarrow> k < length orig \<longrightarrow> lopts' ! k = orig ! k"
      by auto
    have cd: "compacted (drop i orig) (drop i s) = compacted (drop (Suc i) orig) (drop (Suc i) s)"
      using compacted_drop [of i orig s] ilt len True by simp
    show ?thesis
      unfolding unfold cd using True r l t k by simp
  next
    case False
    let ?e = "remap_entry (lopts ! i) (s ! i)"
    let ?l = "lopts[j := ?e]"
    have later: "\<forall>k. Suc i \<le> k \<longrightarrow> k < length orig \<longrightarrow> ?l ! k = orig ! k"
      using Suc.prems by simp
    from Suc.hyps(1) [OF n, of "Suc j" ?l] ilt Suc.prems later
    obtain lopts' where
      r: "assign_loop (Some s) (?l, int (Suc i), int (Suc j)) =
            Inr (lopts', int (length s),
                 int (Suc j + length (compacted (drop (Suc i) orig) (drop (Suc i) s))))"
      and l: "length lopts' = length orig"
      and t: "take (Suc j + length (compacted (drop (Suc i) orig) (drop (Suc i) s))) lopts' =
                take (Suc j) ?l @ compacted (drop (Suc i) orig) (drop (Suc i) s)"
      and k: "\<forall>k. length s \<le> k \<longrightarrow> k < length orig \<longrightarrow> lopts' ! k = orig ! k"
      by auto
    have cd: "compacted (drop i orig) (drop i s) =
                remap_entry (orig ! i) (s ! i) # compacted (drop (Suc i) orig) (drop (Suc i) s)"
      using compacted_drop [of i orig s] ilt len False by simp
    have tk: "take (Suc j) ?l = take j lopts @ [?e]"
      using jlo by (simp add: take_Suc_conv_app_nth)
    show ?thesis
      unfolding unfold cd using False r l t k tk here by simp
  qed
qed

lemma length_compacted:
  "length s \<le> length es \<Longrightarrow> length (compacted es s) = length s - count_list s CHR ''-''"
proof (induction s arbitrary: es)
  case Nil
  then show ?case by (simp add: compacted_def)
next
  case (Cons c cs)
  then obtain e es' where es: "es = e # es'" by (cases es) auto
  with Cons.prems have "length cs \<le> length es'" by simp
  from Cons.IH [OF this] have ih: "length (compacted es' cs) = length cs - count_list cs CHR ''-''" .
  have "count_list cs CHR ''-'' \<le> length cs" by (rule count_le_length)
  with ih show ?case by (simp add: es compacted_Cons Suc_diff_le)
qed

lemma compacted_names:
  "e \<in> set (compacted es s) \<Longrightarrow> \<exists>k. k < length s \<and> k < length es \<and> name e = name (es ! k)"
  by (auto simp: compacted_def remap_entry_def set_zip)

lemma assign_short_opts_compacts:
  assumes nul: "CHR 0x00 \<notin> set s"
    and ascii: "\<forall>c\<in>set s. (of_char c :: nat) < 128"
    and len: "length s < length lopts"
  shows "\<exists>t. assign_short_opts lopts (Some s) = Inr t \<and> length t = length lopts \<and>
             take (length (compacted lopts s)) t = compacted lopts s \<and>
             t ! length (compacted lopts s) = lopts ! length s \<and>
             (\<forall>k. length s < k \<longrightarrow> k < length lopts \<longrightarrow> t ! k = lopts ! k)"
proof -
  let ?m = "length (compacted lopts s)"
  from assign_loop_compacts [OF nul ascii len, of 0 0 lopts]
  obtain lopts' where
    r: "assign_loop (Some s) (lopts, 0, 0) = Inr (lopts', int (length s), int ?m)"
    and l: "length lopts' = length lopts"
    and t: "take ?m lopts' = compacted lopts s"
    and k: "\<forall>k. length s \<le> k \<longrightarrow> k < length lopts \<longrightarrow> lopts' ! k = lopts ! k"
    by auto
  have m: "?m \<le> length s" using length_compacted [of s lopts] len by simp
  with len l have inb: "in_table lopts' (int (length s))" "in_table lopts' (int ?m)"
    by (simp_all add: in_table_def)
  have res: "assign_short_opts lopts (Some s) = Inr (lopts'[?m := lopts' ! length s])"
    using r inb by (simp add: assign_short_opts_def)
  have "take ?m (lopts'[?m := lopts' ! length s]) = compacted lopts s" using t by simp
  moreover have "(lopts'[?m := lopts' ! length s]) ! ?m = lopts ! length s"
    using k len l m by simp
  moreover have "\<forall>k. length s < k \<longrightarrow> k < length lopts \<longrightarrow>
                   (lopts'[?m := lopts' ! length s]) ! k = lopts ! k"
    using k m by simp
  ultimately show ?thesis using res l by simp
qed

lemma assign_short_opts_None:
  "lopts \<noteq> [] \<Longrightarrow> assign_short_opts lopts None = Inr lopts"
  by (simp add: assign_short_opts_def in_table_def assign_loop.simps)

lemma assign_short_opts_empty:
  "lopts \<noteq> [] \<Longrightarrow> assign_short_opts lopts (Some []) = Inr lopts"
  by (simp add: assign_short_opts_def in_table_def shortopts_at_def assign_loop.simps)

lemma assign_body_cases:
  assumes "assign_body s (lopts, i, j) = Inr (lopts', i', j')"
  shows "in_table lopts i \<and> in_table lopts j \<and> i' = i + 1 \<and>
         (lopts' = lopts[nat j := lopts ! nat i] \<and> j' = j \<or>
          (\<exists>e. lopts' = lopts[nat j := e]) \<and> j' = j + 1)"
proof -
  from assms have inb: "in_table lopts i \<and> in_table lopts j"
    by (simp add: assign_body_def split: if_splits)
  show ?thesis
  proof (cases "shortopts_at s i = CHR ''-''")
    case True
    with assms inb show ?thesis by (auto simp add: assign_body_def)
  next
    case False
    with assms inb show ?thesis
      by (cases "shortopts_at s i = CHR ''.''") (auto simp add: assign_body_def Let_def)
  qed
qed

lemma assign_body_inv:
  assumes body: "assign_body s (lopts, i, j) = Inr (lopts', i', j')"
    and j: "0 \<le> j" "j \<le> i"
  shows "i' = i + 1 \<and> 0 \<le> j' \<and> j' \<le> i' \<and> length lopts' = length lopts \<and>
         (\<forall>k. nat i' \<le> k \<longrightarrow> lopts' ! k = lopts ! k)"
proof -
  from assign_body_cases [OF body]
  have i': "i' = i + 1"
    and upd: "\<exists>e. lopts' = lopts[nat j := e]"
    and j': "j' = j \<or> j' = j + 1"
    by auto
  from upd obtain e where e: "lopts' = lopts[nat j := e]" ..
  have "lopts' ! k = lopts ! k" if "nat i' \<le> k" for k
  proof -
    from that i' j have "nat j \<noteq> k" by linarith
    then show ?thesis by (simp add: e)
  qed
  with i' j j' e show ?thesis by auto
qed

lemma loop_head_inv:
  assumes "loop_head shortopts (lopts0, 0, 0) st"
  shows "0 \<le> snd (snd st) \<and> snd (snd st) \<le> fst (snd st) \<and>
         length (fst st) = length lopts0 \<and>
         (\<forall>k. nat (fst (snd st)) \<le> k \<longrightarrow> fst st ! k = lopts0 ! k)"
  using assms
proof (induction rule: loop_head.induct)
  case start
  show ?case by simp
next
  case (pass st s st')
  obtain lopts i j where st: "st = (lopts, i, j)" by (cases st) auto
  obtain lopts' i' j' where st': "st' = (lopts', i', j')" by (cases st') auto
  from pass.IH st have j: "0 \<le> j" "j \<le> i" and l: "length lopts = length lopts0"
    and k: "\<forall>k. nat i \<le> k \<longrightarrow> lopts ! k = lopts0 ! k" by simp_all
  from pass.hyps(4) have "assign_body s (lopts, i, j) = Inr (lopts', i', j')"
    by (simp add: st st')
  from assign_body_inv [OF this j]
  have "i' = i + 1" "0 \<le> j'" "j' \<le> i'" "length lopts' = length lopts"
    and k': "\<forall>k. nat i' \<le> k \<longrightarrow> lopts' ! k = lopts ! k" by simp_all
  moreover have "\<forall>k. nat i' \<le> k \<longrightarrow> lopts' ! k = lopts0 ! k"
  proof (intro allI impI)
    fix k assume a: "nat i' \<le> k"
    with \<open>i' = i + 1\<close> have "nat i \<le> k" by simp
    with k k' a show "lopts' ! k = lopts0 ! k" by simp
  qed
  ultimately show ?case using l by (simp add: st')
qed

lemma assign_loop_ends_at_loop_head:
  "loop_head shortopts st0 st \<Longrightarrow> assign_loop shortopts st = Inr st1 \<Longrightarrow>
   loop_head shortopts st0 st1"
proof (induction shortopts st arbitrary: rule: assign_loop.induct)
  case (1 shortopts st)
  show ?case
  proof (cases shortopts)
    case None
    with "1.prems" show ?thesis by (simp add: assign_loop.simps)
  next
    case (Some s)
    show ?thesis
    proof (cases "shortopts_at s (fst (snd st)) = CHR 0x00")
      case True
      with Some "1.prems" show ?thesis by (simp add: assign_loop.simps)
    next
      case False
      from "1.prems"(2) have "(case assign_body s st of Inl e \<Rightarrow> Inl e
                 | Inr st' \<Rightarrow> assign_loop shortopts st') = Inr st1"
        by (subst (asm) assign_loop.simps) (simp add: Some False)
      then obtain st' where b: "assign_body s st = Inr st'"
        and r: "assign_loop shortopts st' = Inr st1"
        by (cases "assign_body s st") auto
      have "loop_head shortopts st0 st'"
        using "1.prems"(1) Some False b by (rule loop_head.pass)
      with "1.IH" [OF Some False b] r show ?thesis by simp
    qed
  qed
qed

text \<open>
  C1 (as amended). For every table and every control string \<open>s\<close> with exactly one
  character per descriptor (the first \<open>|s|\<close> entries are descriptors and the entry at
  position \<open>|s|\<close> is the sentinel), \<^verbatim>\<open>assign_short_opts\<close> returns, and leaves an
  active table of size \<open>|s|\<close> minus the number of \<^verbatim>\<open>-\<close> in \<open>s\<close> that holds exactly the
  descriptors not marked \<^verbatim>\<open>-\<close>, in their original order: a descriptor at a position
  with a character other than \<^verbatim>\<open>.\<close> has that character as its short-form value, a
  descriptor at a \<^verbatim>\<open>.\<close> keeps the value it had, and descriptors at \<^verbatim>\<open>-\<close> are absent.
  The characters of \<open>s\<close> are 7-bit characters other than NUL, which covers \<^verbatim>\<open>.\<close>,
  \<^verbatim>\<open>-\<close> and the letters; for them the value stored is the character's code whether
  \<^verbatim>\<open>char\<close> is signed or not. Letters need not be distinct.
\<close>

theorem remap_active_table:
  assumes chars: "list_all (\<lambda>c. c \<noteq> CHR 0x00 \<and> (of_char c :: nat) < 128) s"
    and len: "length s < length lopts"
    and named: "list_all (\<lambda>e. name e \<noteq> None) (take (length s) lopts)"
    and sentinel: "name (lopts ! length s) = None"
  shows "\<exists>t. assign_short_opts lopts (Some s) = Inr t \<and>
             active_table t = compacted lopts s \<and>
             length (active_table t) = length s - count_list s CHR ''-''"
proof -
  let ?m = "length (compacted lopts s)"
  from chars have nul: "CHR 0x00 \<notin> set s"
    and ascii: "\<forall>c\<in>set s. (of_char c :: nat) < 128"
    by (auto simp: list_all_iff)
  from assign_short_opts_compacts [OF nul ascii len]
  obtain t where r: "assign_short_opts lopts (Some s) = Inr t"
    and l: "length t = length lopts"
    and tk: "take ?m t = compacted lopts s"
    and at: "t ! ?m = lopts ! length s"
    by auto
  have m: "?m = length s - count_list s CHR ''-''"
    using length_compacted [of s lopts] len by simp
  then have mlt: "?m < length t" using len l by simp
  have kept: "name (t ! k) \<noteq> None" if "k < ?m" for k
  proof -
    from that mlt have "t ! k = take ?m t ! k" by simp
    also have "\<dots> = compacted lopts s ! k" by (simp only: tk)
    finally have "t ! k \<in> set (compacted lopts s)" using that by simp
    then obtain k' where "k' < length s" and "name (t ! k) = name (lopts ! k')"
      using compacted_names by blast
    moreover from named \<open>k' < length s\<close> len have "name (lopts ! k') \<noteq> None"
      by (simp add: list_all_length)
    ultimately show ?thesis by simp
  qed
  have "takeWhile (\<lambda>e. name e \<noteq> None) t = take ?m t"
    by (rule takeWhile_eq_take_P_nth) (use kept at sentinel in auto)
  then have "active_table t = compacted lopts s"
    by (simp add: active_table_def tk)
  with r m show ?thesis by simp
qed

text \<open>The instance \<^verbatim>\<open>"-.O.-"\<close> on the canonical table: three descriptors remain.\<close>

theorem remap_active_table_witness:
  "\<exists>t. assign_short_opts SAM_GLOBAL_LOPTS_INIT (Some ''-.O.-'') = Inr t \<and>
       active_table t =
         [\<lparr>name = Some ''input-fmt-option'', has_arg = 1, flag = None, val = 0\<rparr>,
          \<lparr>name = Some ''output-fmt'', has_arg = 1, flag = None, val = 79\<rparr>,
          \<lparr>name = Some ''output-fmt-option'', has_arg = 1, flag = None, val = 0\<rparr>] \<and>
       length (active_table t) = 3"
  using remap_active_table [of "''-.O.-''" SAM_GLOBAL_LOPTS_INIT]
  by (simp add: SAM_GLOBAL_LOPTS_INIT_def compacted_def remap_entry_def numeral_3_eq_3)

text \<open>
  C1 as stated, for a control string shorter than the table, fails: on the canonical
  table (five descriptors) and \<^verbatim>\<open>"-x"\<close> the entry copied after the loop is the third
  descriptor, not a sentinel. The active table then has five entries, not
  \<open>2 - 1 = 1\<close>, and holds \<^verbatim>\<open>output-fmt\<close> twice.
\<close>

theorem remap_short_string_counterexample:
  "map_sum id (\<lambda>t. (t, length (active_table t)))
     (assign_short_opts SAM_GLOBAL_LOPTS_INIT (Some ''-x'')) =
   Inr ([\<lparr>name = Some ''input-fmt-option'', has_arg = 1, flag = None, val = 120\<rparr>,
         \<lparr>name = Some ''output-fmt'', has_arg = 1, flag = None, val = 0\<rparr>,
         \<lparr>name = Some ''output-fmt'', has_arg = 1, flag = None, val = 0\<rparr>,
         \<lparr>name = Some ''output-fmt-option'', has_arg = 1, flag = None, val = 0\<rparr>,
         \<lparr>name = Some ''verbose'', has_arg = 0, flag = None, val = 0\<rparr>,
         \<lparr>name = None, has_arg = 0, flag = None, val = 0\<rparr>], 5) \<and>
   length ''-x'' - count_list ''-x'' CHR ''-'' = 1"
  by (simp add: assign_short_opts_def assign_loop.simps assign_body_def in_table_def
      shortopts_at_def char_to_int_def SAM_GLOBAL_LOPTS_INIT_def active_table_def)

text \<open>
  C2 (as amended). For every table and every control string \<open>s\<close> of 7-bit characters
  other than NUL such that the entry at position \<open>|s|\<close> of the table is the sentinel,
  \<^verbatim>\<open>assign_short_opts\<close> returns with
  the kept entries in the first \<open>|s|\<close> minus the number of \<^verbatim>\<open>-\<close> positions and a
  sentinel copy at the position immediately after the last kept entry. With an absent
  or an empty control string the table is returned as it was.
\<close>

theorem remap_sentinel:
  assumes chars: "list_all (\<lambda>c. c \<noteq> CHR 0x00 \<and> (of_char c :: nat) < 128) s"
    and len: "length s < length lopts"
    and sentinel: "name (lopts ! length s) = None"
  shows "(\<exists>t. assign_short_opts lopts (Some s) = Inr t \<and>
              take (length s - count_list s CHR ''-'') t = compacted lopts s \<and>
              name (t ! (length s - count_list s CHR ''-'')) = None) \<and>
         assign_short_opts lopts None = Inr lopts \<and>
         assign_short_opts lopts (Some []) = Inr lopts"
proof -
  from chars have nul: "CHR 0x00 \<notin> set s"
    and ascii: "\<forall>c\<in>set s. (of_char c :: nat) < 128"
    by (auto simp: list_all_iff)
  from assign_short_opts_compacts [OF nul ascii len]
  obtain t where r: "assign_short_opts lopts (Some s) = Inr t"
    and tk: "take (length (compacted lopts s)) t = compacted lopts s"
    and at: "t ! length (compacted lopts s) = lopts ! length s"
    by auto
  have m: "length (compacted lopts s) = length s - count_list s CHR ''-''"
    using length_compacted [of s lopts] len by simp
  have ne: "lopts \<noteq> []" using len by auto
  show ?thesis
    using r tk at sentinel assign_short_opts_None [OF ne] assign_short_opts_empty [OF ne]
    by (simp add: m)
qed

theorem remap_sentinel_witness:
  "(\<exists>t. assign_short_opts SAM_GLOBAL_LOPTS_INIT (Some ''-.O.-'') = Inr t \<and>
        take 3 t =
          [\<lparr>name = Some ''input-fmt-option'', has_arg = 1, flag = None, val = 0\<rparr>,
           \<lparr>name = Some ''output-fmt'', has_arg = 1, flag = None, val = 79\<rparr>,
           \<lparr>name = Some ''output-fmt-option'', has_arg = 1, flag = None, val = 0\<rparr>] \<and>
        name (t ! 3) = None) \<and>
   assign_short_opts SAM_GLOBAL_LOPTS_INIT None = Inr SAM_GLOBAL_LOPTS_INIT \<and>
   assign_short_opts SAM_GLOBAL_LOPTS_INIT (Some []) = Inr SAM_GLOBAL_LOPTS_INIT"
  using remap_sentinel [of "''-.O.-''" SAM_GLOBAL_LOPTS_INIT]
  by (simp add: SAM_GLOBAL_LOPTS_INIT_def compacted_def remap_entry_def numeral_3_eq_3)

text \<open>
  C2 as stated fails for the absent and the empty control string: the canonical table
  comes back unchanged, position 0 holds \<^verbatim>\<open>input-fmt\<close> and not a sentinel, and all five
  descriptors stay active.
\<close>

theorem remap_absent_string_counterexample:
  "assign_short_opts SAM_GLOBAL_LOPTS_INIT None = Inr SAM_GLOBAL_LOPTS_INIT \<and>
   assign_short_opts SAM_GLOBAL_LOPTS_INIT (Some '''') = Inr SAM_GLOBAL_LOPTS_INIT \<and>
   name (SAM_GLOBAL_LOPTS_INIT ! 0) = Some ''input-fmt'' \<and>
   active_table SAM_GLOBAL_LOPTS_INIT = take 5 SAM_GLOBAL_LOPTS_INIT"
  by (simp add: assign_short_opts_def assign_loop.simps in_table_def shortopts_at_def
      SAM_GLOBAL_LOPTS_INIT_def active_table_def)

text \<open>
  C10. In every state the loop of \<^verbatim>\<open>assign_short_opts\<close> reaches at its head, started
  with \<open>i = j = 0\<close> on the table \<open>lopts0\<close>, the write cursor \<open>j\<close> is not negative and
  does not exceed the read cursor \<open>i\<close>, and the table still holds the original entry
  at position \<open>i\<close> and at every later position: the copy \<^verbatim>\<open>lopts[j] = lopts[i]\<close> reads
  an original descriptor, never a slot written before. By
  \<open>assign_loop_ends_at_loop_head\<close> the state after the loop is such a state too, so
  the same holds for the copy after the loop.
\<close>

theorem write_cursor_behind_read_cursor:
  assumes "loop_head shortopts (lopts0, 0, 0) (lopts, i, j)"
  shows "0 \<le> j \<and> j \<le> i \<and> length lopts = length lopts0 \<and>
         lopts ! nat i = lopts0 ! nat i \<and>
         (\<forall>k. nat i \<le> k \<longrightarrow> lopts ! k = lopts0 ! k)"
  using loop_head_inv [OF assms] by simp

text \<open>The state after two passes on the canonical table and \<^verbatim>\<open>"-x"\<close>.\<close>

theorem write_cursor_behind_read_cursor_witness:
  "loop_head (Some ''-x'') (SAM_GLOBAL_LOPTS_INIT, 0, 0)
     ([\<lparr>name = Some ''input-fmt-option'', has_arg = 1, flag = None, val = 120\<rparr>,
       \<lparr>name = Some ''input-fmt-option'', has_arg = 1, flag = None, val = 0\<rparr>,
       \<lparr>name = Some ''output-fmt'', has_arg = 1, flag = None, val = 0\<rparr>,
       \<lparr>name = Some ''output-fmt-option'', has_arg = 1, flag = None, val = 0\<rparr>,
       \<lparr>name = Some ''verbose'', has_arg = 0, flag = None, val = 0\<rparr>,
       \<lparr>name = None, has_arg = 0, flag = None, val = 0\<rparr>], 2, 1) \<and>
   (0::int) \<le> 1 \<and> (1::int) \<le> 2 \<and>
   [\<lparr>name = Some ''input-fmt-option'', has_arg = 1, flag = None, val = 120\<rparr>,
    \<lparr>name = Some ''input-fmt-option'', has_arg = 1, flag = None, val = 0\<rparr>,
    \<lparr>name = Some ''output-fmt'', has_arg = 1, flag = None, val = 0\<rparr>,
    \<lparr>name = Some ''output-fmt-option'', has_arg = 1, flag = None, val = 0\<rparr>,
    \<lparr>name = Some ''verbose'', has_arg = 0, flag = None, val = 0\<rparr>,
    \<lparr>name = None, has_arg = 0, flag = None, val = 0\<rparr>] ! 2 = SAM_GLOBAL_LOPTS_INIT ! 2"
proof -
  let ?s = "''-x''"
  let ?st1 = "(SAM_GLOBAL_LOPTS_INIT, 1::int, 0::int)"
  let ?t2 = "[\<lparr>name = Some ''input-fmt-option'', has_arg = 1, flag = None, val = 120\<rparr>,
       \<lparr>name = Some ''input-fmt-option'', has_arg = 1, flag = None, val = 0\<rparr>,
       \<lparr>name = Some ''output-fmt'', has_arg = 1, flag = None, val = 0\<rparr>,
       \<lparr>name = Some ''output-fmt-option'', has_arg = 1, flag = None, val = 0\<rparr>,
       \<lparr>name = Some ''verbose'', has_arg = 0, flag = None, val = 0\<rparr>,
       \<lparr>name = None, has_arg = 0, flag = None, val = 0\<rparr>]"
  have h0: "loop_head (Some ?s) (SAM_GLOBAL_LOPTS_INIT, 0, 0) (SAM_GLOBAL_LOPTS_INIT, 0, 0)"
    by (rule loop_head.start)
  have b1: "assign_body ?s (SAM_GLOBAL_LOPTS_INIT, 0, 0) = Inr ?st1"
    by (simp add: assign_body_def in_table_def shortopts_at_def char_to_int_def
        SAM_GLOBAL_LOPTS_INIT_def)
  have h1: "loop_head (Some ?s) (SAM_GLOBAL_LOPTS_INIT, 0, 0) ?st1"
    by (rule loop_head.pass [OF h0 refl _ b1]) (simp add: shortopts_at_def)
  have b2: "assign_body ?s ?st1 = Inr (?t2, 2, 1)"
    by (simp add: assign_body_def in_table_def shortopts_at_def char_to_int_def
        SAM_GLOBAL_LOPTS_INIT_def)
  have h2: "loop_head (Some ?s) (SAM_GLOBAL_LOPTS_INIT, 0, 0) (?t2, 2, 1)"
    by (rule loop_head.pass [OF h1 refl _ b2]) (simp add: shortopts_at_def)
  from write_cursor_behind_read_cursor [OF h2] h2 show ?thesis
    by (simp add: SAM_GLOBAL_LOPTS_INIT_def)
qed

section \<open>Properties of parse_sam_global_opt\<close>

lemma example_table_remapped:
  "assign_short_opts SAM_GLOBAL_LOPTS_INIT (Some ''IiOov'') = Inr example_table"
  by (simp add: assign_short_opts_def assign_loop.simps assign_body_def in_table_def
      shortopts_at_def char_to_int_def SAM_GLOBAL_LOPTS_INIT_def example_table_def)

text \<open>Entries that do not carry the code are passed over.\<close>

lemma lookup_loop_skip:
  assumes "list_all (\<lambda>x. name x \<noteq> None \<and> val x \<noteq> c) pre"
  shows "lookup_loop H c optarg (done @ pre @ rest) (length done) ga r =
         lookup_loop H c optarg (done @ pre @ rest) (length done + length pre) ga r"
  using assms
proof (induction pre arbitrary: "done")
  case Nil
  show ?case by simp
next
  case (Cons x pre)
  from Cons.prems have x: "name x \<noteq> None" "val x \<noteq> c"
    and pre: "list_all (\<lambda>x. name x \<noteq> None \<and> val x \<noteq> c) pre" by simp_all
  from x obtain nm where nm: "name x = Some nm" by auto
  from x have ne: "c \<noteq> val x" by auto
  have "lookup_loop H c optarg (done @ (x # pre) @ rest) (length done) ga r =
        lookup_loop H c optarg (done @ (x # pre) @ rest) (length done + 1) ga r"
    by (subst lookup_loop.simps) (simp add: nm ne)
  also have "\<dots> = lookup_loop H c optarg ((done @ [x]) @ pre @ rest) (length (done @ [x])) ga r"
    by simp
  also have "\<dots> = lookup_loop H c optarg ((done @ [x]) @ pre @ rest)
                      (length (done @ [x]) + length pre) ga r"
    by (rule Cons.IH [OF pre])
  finally show ?case by simp
qed

lemma lookup_loop_first:
  assumes "list_all (\<lambda>x. name x \<noteq> None \<and> val x \<noteq> c) pre"
  shows "lookup_loop H c optarg (pre @ e # rest) 0 ga r =
         lookup_loop H c optarg (pre @ e # rest) (length pre) ga r"
  using lookup_loop_skip [OF assms, of H optarg "[]" "e # rest" ga r] by simp

lemma lookup_loop_sentinel:
  assumes "name e = None"
  shows "lookup_loop H c optarg (pre @ e # rest) (length pre) ga r = Some (Inr (length pre, ga, r))"
  by (subst lookup_loop.simps) (simp add: assms)

lemma lookup_loop_verbose:
  assumes "name e = Some ''verbose''" and "val e = c"
  shows "lookup_loop H c optarg (pre @ e # rest) (length pre) ga r =
         Some (Inr (length pre, ga\<lparr>verbosity := verbosity ga + 1\<rparr>, r))"
  by (subst lookup_loop.simps) (simp add: assms)

lemma lookup_loop_input_fmt_option:
  assumes "name e = Some ''input-fmt-option''" and "val e = c"
  shows "lookup_loop H c optarg (pre @ e # rest) (length pre) ga r =
         (case hts_opt_add H (opts (in_fmt ga)) optarg of
            (r', os) \<Rightarrow> Some (Inr (length pre, ga\<lparr>in_fmt := (in_fmt ga)\<lparr>opts := os\<rparr>\<rparr>, r')))"
  by (subst lookup_loop.simps) (simp add: assms)

text \<open>
  An entry that carries the code and has none of the five names: the loop comes back
  to the same state, and never ends.
\<close>

lemma lookup_loop_stuck:
  assumes k: "k < length lopt" and nm: "name (lopt ! k) = Some nm"
    and c: "val (lopt ! k) = c" and unknown: "\<not> known_option nm"
  shows "lookup_loop H c optarg lopt k ga r = None"
proof (rule ccontr)
  let ?stuck = "\<lambda>c lopt k. k < length lopt \<and> val (lopt ! k) = c \<and>
                  (\<exists>nm. name (lopt ! k) = Some nm \<and> \<not> known_option nm)"
  assume "lookup_loop H c optarg lopt k ga r \<noteq> None"
  then obtain y where y: "lookup_loop H c optarg lopt k ga r = Some y" by auto
  have "\<not> ?stuck c lopt k"
  proof (rule lookup_loop.raw_induct
      [where P = "\<lambda>H c optarg lopt k ga r y. \<not> ?stuck c lopt k", OF _ y], goal_cases)
    case (1 f H c optarg lopt k ga r y)
    show ?case
    proof
      assume stuck: "?stuck c lopt k"
      then obtain nm where "name (lopt ! k) = Some nm" "\<not> known_option nm" by auto
      with stuck "1"(2) have "f H c optarg lopt k ga r = Some y"
        by (simp add: known_option_def)
      from "1"(1) [OF this] stuck show False by simp
    qed
  qed
  with k nm c unknown show False by simp
qed

lemma parse_no_match:
  assumes "list_all (\<lambda>x. name x \<noteq> None \<and> val x \<noteq> c) pre" and "name sentinel = None"
  shows "parse_sam_global_opt H c optarg (pre @ sentinel # rest) ga =
           Some (Inr (- 1, ga, [Unexpected_global_option None]))"
  using assms
  by (simp add: parse_sam_global_opt_def lookup_loop_first lookup_loop_sentinel)

lemma parse_verbose:
  assumes "list_all (\<lambda>x. name x \<noteq> None \<and> val x \<noteq> c) pre"
    and "name e = Some ''verbose''" and "val e = c"
  shows "parse_sam_global_opt H c optarg (pre @ e # rest) ga =
           Some (Inr (0, ga\<lparr>verbosity := verbosity ga + 1\<rparr>, []))"
  using assms
  by (simp add: parse_sam_global_opt_def lookup_loop_first lookup_loop_verbose)

lemma parse_input_fmt_option:
  assumes "list_all (\<lambda>x. name x \<noteq> None \<and> val x \<noteq> c) pre"
    and "name e = Some ''input-fmt-option''" and "val e = c"
    and "hts_opt_add H (opts (in_fmt ga)) optarg = (r', os)"
  shows "parse_sam_global_opt H c optarg (pre @ e # rest) ga =
           Some (Inr (r', ga\<lparr>in_fmt := (in_fmt ga)\<lparr>opts := os\<rparr>\<rparr>, []))"
  using assms
  by (simp add: parse_sam_global_opt_def lookup_loop_first lookup_loop_input_fmt_option)

text \<open>
  On a table all of whose descriptors have one of the five names the routine returns,
  whatever the code.
\<close>

lemma lookup_loop_known_returns:
  assumes "list_all (\<lambda>x. case name x of None \<Rightarrow> False | Some nm \<Rightarrow> known_option nm) pre"
    and "name sentinel = None"
  shows "lookup_loop H c optarg (done @ pre @ sentinel # rest) (length done) ga r \<noteq> None"
  using assms(1)
proof (induction pre arbitrary: "done")
  case Nil
  show ?case by (subst lookup_loop.simps) (simp add: assms(2))
next
  case (Cons x pre)
  from Cons.prems obtain nm where nm: "name x = Some nm" and known: "known_option nm"
    and pre: "list_all (\<lambda>x. case name x of None \<Rightarrow> False | Some nm \<Rightarrow> known_option nm) pre"
    by (auto split: option.splits)
  show ?case
  proof (cases "c = val x")
    case True
    with nm known show ?thesis
      by (subst lookup_loop.simps) (auto simp: known_option_def split: prod.splits)
  next
    case False
    have "lookup_loop H c optarg (done @ (x # pre) @ sentinel # rest) (length done) ga r =
          lookup_loop H c optarg ((done @ [x]) @ pre @ sentinel # rest) (length (done @ [x])) ga r"
      using False nm by (subst lookup_loop.simps) simp
    with Cons.IH [OF pre, of "done @ [x]"] show ?thesis by simp
  qed
qed

lemma parse_known_returns:
  assumes "list_all (\<lambda>x. case name x of None \<Rightarrow> False | Some nm \<Rightarrow> known_option nm) pre"
    and "name sentinel = None"
  shows "parse_sam_global_opt H c optarg (pre @ sentinel # rest) ga \<noteq> None"
  using lookup_loop_known_returns [OF assms, of H c optarg "[]" rest ga 0]
  by (auto simp: parse_sam_global_opt_def split: option.splits sum.splits)

text \<open>
  C3. For every table that ends with a sentinel and every settings value: when no
  entry before the sentinel carries the code \<open>c\<close>, \<^verbatim>\<open>parse_sam_global_opt\<close> returns
  \<open>-1\<close> and the settings are the ones it was given. (It also writes its one message.)
\<close>

theorem dispatch_no_match:
  assumes "list_all (\<lambda>x. name x \<noteq> None \<and> val x \<noteq> c) pre" and "name sentinel = None"
  shows "parse_sam_global_opt H c optarg (pre @ sentinel # rest) ga =
           Some (Inr (- 1, ga, [Unexpected_global_option None]))"
  using assms by (rule parse_no_match)

text \<open>The code of \<^verbatim>\<open>x\<close>, which \<open>example_table\<close> gives to no option.\<close>

theorem dispatch_no_match_witness:
  "parse_sam_global_opt htslib_model 120 None example_table zeroed =
     Some (Inr (- 1, zeroed, [Unexpected_global_option None]))"
  using dispatch_no_match [of 120 "take 5 example_table" "example_table ! 5" htslib_model
      None "[]" zeroed]
  by (simp add: example_table_def)

text \<open>
  C4, at the input where it fails. The table holds one descriptor, \<^verbatim>\<open>threads\<close> with the
  code of \<^verbatim>\<open>@\<close>, and the sentinel; the call passes that code. The entry carries the
  code, no \<^verbatim>\<open>strcmp\<close> of the chain succeeds, and the body ends with neither \<^verbatim>\<open>lopt++\<close>
  nor \<^verbatim>\<open>break\<close>: \<^verbatim>\<open>parse_sam_global_opt\<close> does not return, for any settings, argument
  and library.
\<close>

theorem dispatch_unknown_name_never_returns:
  "parse_sam_global_opt H 64 optarg
     [\<lparr>name = Some ''threads'', has_arg = 1, flag = None, val = 64\<rparr>,
      \<lparr>name = None, has_arg = 0, flag = None, val = 0\<rparr>] ga = None"
  using lookup_loop_stuck [of 0 "[\<lparr>name = Some ''threads'', has_arg = 1, flag = None, val = 64\<rparr>,
      \<lparr>name = None, has_arg = 0, flag = None, val = 0\<rparr>]" "''threads''" 64 H optarg ga 0]
  by (simp add: parse_sam_global_opt_def known_option_def)

text \<open>
  C5, at an input where it fails. \<^verbatim>\<open>parse_sam_global_opt\<close> on \<open>example_table\<close> with the
  code of \<^verbatim>\<open>x\<close>, which no entry carries: the message is written only once the loop has
  reached the sentinel, so the pointer it passes for \<^verbatim>\<open>%s\<close> is the sentinel's null
  name. The message names neither the code nor any option.
\<close>

theorem dispatch_diagnostic_null_name:
  "parse_sam_global_opt H 120 optarg example_table ga =
     Some (Inr (- 1, ga, [Unexpected_global_option None]))"
  using parse_no_match [of 120 "take 5 example_table" "example_table ! 5" H optarg "[]" ga]
  by (simp add: example_table_def)

text \<open>
  C6 (as amended). For every settings value and every table in which the \<^verbatim>\<open>verbose\<close>
  entry carries the code \<open>c\<close> and no entry before it does, three calls of
  \<^verbatim>\<open>parse_sam_global_opt\<close> with \<open>c\<close>, each on the settings the call before left, return
  0 each, write nothing, and leave the settings they started from with the verbosity
  counter increased by 3 (in the counter's 32-bit arithmetic) and nothing else
  changed.
\<close>

theorem verbose_three_times:
  assumes "list_all (\<lambda>x. name x \<noteq> None \<and> val x \<noteq> c) pre"
    and "name e = Some ''verbose''" and "val e = c"
  shows "parse_sam_global_opt H c a1 (pre @ e # rest) ga =
           Some (Inr (0, ga\<lparr>verbosity := verbosity ga + 1\<rparr>, [])) \<and>
         parse_sam_global_opt H c a2 (pre @ e # rest) (ga\<lparr>verbosity := verbosity ga + 1\<rparr>) =
           Some (Inr (0, ga\<lparr>verbosity := verbosity ga + 2\<rparr>, [])) \<and>
         parse_sam_global_opt H c a3 (pre @ e # rest) (ga\<lparr>verbosity := verbosity ga + 2\<rparr>) =
           Some (Inr (0, ga\<lparr>verbosity := verbosity ga + 3\<rparr>, []))"
  by (simp add: parse_verbose [OF assms])

theorem verbose_three_times_witness:
  "parse_sam_global_opt htslib_model 118 None example_table zeroed =
     Some (Inr (0, zeroed\<lparr>verbosity := 1\<rparr>, [])) \<and>
   parse_sam_global_opt htslib_model 118 None example_table (zeroed\<lparr>verbosity := 1\<rparr>) =
     Some (Inr (0, zeroed\<lparr>verbosity := 2\<rparr>, [])) \<and>
   parse_sam_global_opt htslib_model 118 None example_table (zeroed\<lparr>verbosity := 2\<rparr>) =
     Some (Inr (0, zeroed\<lparr>verbosity := 3\<rparr>, []))"
  using verbose_three_times [of 118 "take 4 example_table" "example_table ! 4" htslib_model
      None "[example_table ! 5]" zeroed None None]
  by (simp add: example_table_def zeroed_def)

text \<open>
  C6 as stated, for every table that contains the \<^verbatim>\<open>verbose\<close> entry, fails when an
  earlier entry carries the same code: the search stops at the first entry with the
  code. Here \<^verbatim>\<open>input-fmt\<close> and \<^verbatim>\<open>verbose\<close> both carry the code of \<^verbatim>\<open>v\<close>; the call takes
  the \<^verbatim>\<open>input-fmt\<close> branch, the counter stays 0, and the result is the library's.
\<close>

theorem verbose_shadowed_counterexample:
  "parse_sam_global_opt htslib_model 118 None
     [\<lparr>name = Some ''input-fmt'', has_arg = 1, flag = None, val = 118\<rparr>,
      \<lparr>name = Some ''verbose'', has_arg = 0, flag = None, val = 118\<rparr>,
      \<lparr>name = None, has_arg = 0, flag = None, val = 0\<rparr>] zeroed =
   Some (Inr (- 1, zeroed, []))"
  by (subst parse_sam_global_opt_def, subst lookup_loop.simps)
     (simp add: htslib_model_def zeroed_def)

text \<open>
  C7. When the first entry of the table that carries the code \<open>c\<close> is
  \<^verbatim>\<open>input-fmt-option\<close>, and \<^verbatim>\<open>hts_opt_add\<close> on the input format's option list and
  \<^verbatim>\<open>"nthreads=4"\<close> succeeds and appends one option \<open>opt\<close>, then
  \<^verbatim>\<open>parse_sam_global_opt\<close> with \<open>c\<close> and \<^verbatim>\<open>"nthreads=4"\<close> returns 0 and writes nothing;
  the input format's option list is the old one followed by \<open>opt\<close>, and the rest of
  the input format, the whole output format and the verbosity counter are unchanged.
\<close>

theorem input_fmt_option_appends:
  assumes "list_all (\<lambda>x. name x \<noteq> None \<and> val x \<noteq> c) pre"
    and "name e = Some ''input-fmt-option''" and "val e = c"
    and "hts_opt_add H (opts (in_fmt ga)) (Some ''nthreads=4'') = (0, opts (in_fmt ga) @ [opt])"
  shows "\<exists>ga'. parse_sam_global_opt H c (Some ''nthreads=4'') (pre @ e # rest) ga =
                 Some (Inr (0, ga', [])) \<and>
               opts (in_fmt ga') = opts (in_fmt ga) @ [opt] \<and>
               fmt (in_fmt ga') = fmt (in_fmt ga) \<and>
               out ga' = out ga \<and>
               verbosity ga' = verbosity ga"
  using parse_input_fmt_option [OF assms] by simp

text \<open>
  With the library model: the option appended is \<^verbatim>\<open>nthreads\<close> with value \<^verbatim>\<open>4\<close>, after the
  option that was there.
\<close>

theorem input_fmt_option_appends_witness:
  "\<exists>ga'. parse_sam_global_opt htslib_model 105 (Some ''nthreads=4'') example_table
            (zeroed\<lparr>in_fmt := \<lparr>fmt = 0, opts = [(''level'', Some ''5'')]\<rparr>, verbosity := 2\<rparr>) =
            Some (Inr (0, ga', [])) \<and>
          opts (in_fmt ga') = [(''level'', Some ''5''), (''nthreads'', Some ''4'')] \<and>
          fmt (in_fmt ga') = 0 \<and>
          out ga' = \<lparr>fmt = 0, opts = []\<rparr> \<and>
          verbosity ga' = 2"
  using input_fmt_option_appends [of 105 "take 1 example_table" "example_table ! 1" htslib_model
      "zeroed\<lparr>in_fmt := \<lparr>fmt = 0, opts = [(''level'', Some ''5'')]\<rparr>, verbosity := 2\<rparr>"
      "(''nthreads'', Some ''4'')" "drop 2 example_table"]
  by (simp add: example_table_def zeroed_def htslib_model_def hts_opt_add_model_def)

section \<open>Properties of sam_global_opt_help\<close>

lemma help_loop_end:
  "help_loop lopts (Some s) (int (length s)) fp = Inr fp"
  by (subst help_loop.simps) (simp add: shortopts_at_def)

text \<open>
  C8. On the control string \<^verbatim>\<open>"-.x"\<close> and a table of at least three elements whose
  second and third are named, \<^verbatim>\<open>sam_global_opt_help\<close> returns having appended to the
  stream exactly two blocks, in table order: nothing for the first entry, the
  long-only header and the text of the second entry, then the header with short form
  \<^verbatim>\<open>x\<close> and the text of the third.
\<close>

theorem help_dash_dot_x:
  assumes "3 \<le> length lopts" and "name (lopts ! 1) = Some n1" and "name (lopts ! 2) = Some n2"
  shows "sam_global_opt_help lopts fp (Some ''-.x'') =
           Inr (fp @ ''      --'' @ option_help n1 @ ''  -x, --'' @ option_help n2)"
proof -
  from assms(1) have ne: "lopts \<noteq> []" by auto
  have 0: "help_loop lopts (Some ''-.x'') 0 fp = help_loop lopts (Some ''-.x'') 1 fp"
    using ne by (subst help_loop.simps) (simp add: shortopts_at_def)
  have 1: "help_loop lopts (Some ''-.x'') 1 fp =
           help_loop lopts (Some ''-.x'') 2 (fp @ ''      --'' @ option_help n1)"
    using assms(1,2) by (subst help_loop.simps) (simp add: shortopts_at_def)
  have 2: "help_loop lopts (Some ''-.x'') 2 fp' =
           help_loop lopts (Some ''-.x'') 3 (fp' @ ''  -x, --'' @ option_help n2)" for fp'
    using assms(1,3) by (subst help_loop.simps) (simp add: shortopts_at_def)
  have 3: "help_loop lopts (Some ''-.x'') 3 fp' = Inr fp'" for fp'
    using help_loop_end [of lopts "''-.x''" fp'] by simp
  show ?thesis
    by (simp add: sam_global_opt_help_def 0 1 2 3)
qed

text \<open>On the canonical table the two blocks are those of its second and third option.\<close>

theorem help_dash_dot_x_witness:
  "sam_global_opt_help SAM_GLOBAL_LOPTS_INIT [] (Some ''-.x'') =
     Inr (''      --input-fmt-option OPT[=VAL]\<newline>'' @
          ''               Specify a single input file format option in the form\<newline>'' @
          ''               of OPTION or OPTION=VALUE\<newline>'' @
          ''  -x, --output-fmt FORMAT[,OPT[=VAL]]...\<newline>'' @
          ''               Specify output format (SAM, BAM, CRAM)\<newline>'')"
  using help_dash_dot_x [of SAM_GLOBAL_LOPTS_INIT "''input-fmt-option''" "''output-fmt''" "[]"]
  by (simp add: SAM_GLOBAL_LOPTS_INIT_def option_help_def)

section \<open>Properties of sam_global_args_init\<close>

text \<open>
  C9. \<^verbatim>\<open>sam_global_args_init\<close> with a null pointer returns with the store as it was;
  with the address of a settings structure it returns with every field of that
  structure zero (both option lists empty) and the rest of the store as it was.
\<close>

theorem init_null_or_zero:
  assumes "h a = Some ga"
  shows "sam_global_args_init None h = Inr h \<and>
         sam_global_args_init (Some a) h =
           Inr (h(a \<mapsto> \<lparr>in_fmt = \<lparr>fmt = 0, opts = []\<rparr>,
                         out = \<lparr>fmt = 0, opts = []\<rparr>, verbosity = 0\<rparr>))"
  using assms by (simp add: sam_global_args_init_def zeroed_def)

theorem init_null_or_zero_witness:
  "sam_global_args_init None
     [7 \<mapsto> \<lparr>in_fmt = \<lparr>fmt = 3::int, opts = [(''level'', Some ''5'')]\<rparr>,
            out = \<lparr>fmt = 1, opts = []\<rparr>, verbosity = 2\<rparr>] =
   Inr [7 \<mapsto> \<lparr>in_fmt = \<lparr>fmt = 3::int, opts = [(''level'', Some ''5'')]\<rparr>,
            out = \<lparr>fmt = 1, opts = []\<rparr>, verbosity = 2\<rparr>] \<and>
   sam_global_args_init (Some 7)
     [7 \<mapsto> \<lparr>in_fmt = \<lparr>fmt = 3::int, opts = [(''level'', Some ''5'')]\<rparr>,
            out = \<lparr>fmt = 1, opts = []\<rparr>, verbosity = 2\<rparr>] =
   Inr [7 \<mapsto> \<lparr>in_fmt = \<lparr>fmt = 0, opts = []\<rparr>, out = \<lparr>fmt = 0, opts = []\<rparr>, verbosity = 0\<rparr>]"
  using init_null_or_zero [of "[7 \<mapsto> \<lparr>in_fmt = \<lparr>fmt = 3::int, opts = [(''level'', Some ''5'')]\<rparr>,
            out = \<lparr>fmt = 1, opts = []\<rparr>, verbosity = 2\<rparr>]" 7]
  by (simp add: sam_global_args_init_def zeroed_def)

end
